theory Spec2Isabelle
  imports Main "HOL-Library.Sublist"
begin

section \<open>Books API: data model\<close>

text \<open>
  A Python \<^verbatim>\<open>str\<close> is a sequence of Unicode code points; pydantic's
  \<^verbatim>\<open>min_length\<close> and \<^verbatim>\<open>max_length\<close> count code points. The authors of
  \<^verbatim>\<open>init_db.py\<close> are Cyrillic, beyond the 8-bit \<open>char\<close> of HOL, so a string is a
  list of code points.
\<close>

type_synonym pystr = "nat list"

text \<open>
  A field of a JSON request body, as pydantic meets it: the key is not in the object, the
  value is \<^verbatim>\<open>null\<close>, the value reads as the field's type, or it does not.
\<close>

datatype 'a json = Unset | Null | Val 'a | Mistyped

datatype fld = F_id | F_title | F_author | F_year | F_isbn

text \<open>
  \<^verbatim>\<open>ValidationError\<close> is the 422 of request validation (with the offending fields, in
  declaration order), \<^verbatim>\<open>NotFound\<close> the 404 raised by the handlers,
  \<^verbatim>\<open>AuthError\<close> what \<^verbatim>\<open>verify_api_key\<close> raises. The last two are server errors
  (500): a returned object that does not satisfy \<^verbatim>\<open>response_model\<close>, and the
  \<^verbatim>\<open>TypeError\<close> of \<^verbatim>\<open>None // 100\<close>.
\<close>

datatype error =
    AuthError
  | ValidationError "fld list"
  | NotFound int
  | ResponseValidationError
  | TypeError

text \<open>The request body of \<^verbatim>\<open>Book\<close> before validation.\<close>

record raw_book =
  in_id :: "int json"
  in_title :: "pystr json"
  in_author :: "pystr json"
  in_year :: "int json"
  in_isbn :: "pystr json"

text \<open>The request body of \<^verbatim>\<open>BookUpdate\<close> before validation (the model has no id).\<close>

record raw_update =
  patch_title :: "pystr json"
  patch_author :: "pystr json"
  patch_year :: "int json"
  patch_isbn :: "pystr json"

text \<open>A validated \<^verbatim>\<open>Book\<close> (main.py, lines 17 to 22).\<close>

record Book =
  bk_id :: "int option"
  bk_title :: pystr
  bk_author :: pystr
  bk_year :: int
  bk_isbn :: "pystr option"

text \<open>
  A validated \<^verbatim>\<open>BookUpdate\<close> (lines 24 to 28). Every field is \<^verbatim>\<open>Optional\<close> with
  default \<^verbatim>\<open>None\<close>; pydantic remembers which fields the body set
  (\<^verbatim>\<open>model_fields_set\<close>), and \<^verbatim>\<open>exclude_unset\<close> reads it: \<open>NotSet\<close> is a key the
  body did not have, \<open>SetTo None\<close> an explicit \<^verbatim>\<open>null\<close>.
\<close>

datatype 'a opt_field = NotSet | SetTo "'a option"

record BookUpdate =
  upd_title :: "pystr opt_field"
  upd_author :: "pystr opt_field"
  upd_year :: "int opt_field"
  upd_isbn :: "pystr opt_field"

text \<open>
  Modelled from the spec: the mapped class \<^verbatim>\<open>BookDB\<close> of \<^verbatim>\<open>database.py\<close>, which is
  not among the sources. The spec gives the table the five fields of Book, a unique
  system-generated id, and says that the field constraints are enforced at the boundary,
  not by the store: so every column but the id can hold \<^verbatim>\<open>None\<close>, which is what
  \<^verbatim>\<open>setattr(book, field, None)\<close> followed by a commit stores.
\<close>

record BookDB =
  db_id :: int
  db_title :: "pystr option"
  db_author :: "pystr option"
  db_year :: "int option"
  db_isbn :: "pystr option"

text \<open>The table, in the order in which the store returns its rows.\<close>

type_synonym session = "BookDB list"

text \<open>
  What the program reads from outside its two files:
  \<^item> \<open>now_year\<close>: \<^verbatim>\<open>datetime.now().year\<close>, evaluated once, when the two model classes
    are defined;
  \<^item> \<open>secret\<close>: the configured API key that \<^verbatim>\<open>verify_api_key\<close> compares with;
  \<^item> \<open>lower_cp\<close>: the case folding of the store's \<^verbatim>\<open>ILIKE\<close>, one code point at a time
    (which letters it folds depends on the engine);
  \<^item> \<open>odd_page\<close>: what the store returns for a negative \<^verbatim>\<open>OFFSET\<close> or \<^verbatim>\<open>LIMIT\<close>
    (engines differ; the handler passes \<^verbatim>\<open>skip\<close> and \<^verbatim>\<open>limit\<close> on unchecked).
\<close>

record config =
  now_year :: int
  secret :: pystr
  lower_cp :: "nat \<Rightarrow> nat"
  odd_page :: "int \<Rightarrow> int \<Rightarrow> BookDB list \<Rightarrow> BookDB list"

section \<open>Validation: the pydantic models\<close>

definition len_between :: "nat \<Rightarrow> nat \<Rightarrow> pystr \<Rightarrow> bool" where
  "len_between lo hi s = (lo \<le> length s \<and> length s \<le> hi)"

definition year_in_range :: "config \<Rightarrow> int \<Rightarrow> bool" where
  "year_in_range cfg y = (1000 \<le> y \<and> y \<le> now_year cfg)"

text \<open>
  One validator per kind of field; \<open>None\<close> is a validation error of that field.
  \<^verbatim>\<open>str = Field(..., min_length, max_length)\<close>: required, and \<^verbatim>\<open>null\<close> is not a str.
\<close>

fun required_str :: "nat \<Rightarrow> nat \<Rightarrow> pystr json \<Rightarrow> pystr option" where
  "required_str lo hi (Val s) = (if len_between lo hi s then Some s else None)"
| "required_str lo hi Unset = None"
| "required_str lo hi Null = None"
| "required_str lo hi Mistyped = None"

fun required_year :: "config \<Rightarrow> int json \<Rightarrow> int option" where
  "required_year cfg (Val y) = (if year_in_range cfg y then Some y else None)"
| "required_year cfg Unset = None"
| "required_year cfg Null = None"
| "required_year cfg Mistyped = None"

text \<open>
  \<^verbatim>\<open>Optional[T] = Field(None, ...)\<close>: a missing key takes the default, \<^verbatim>\<open>null\<close> is
  accepted as it is, and the bounds apply to a value only.
\<close>

fun optional_str :: "nat \<Rightarrow> nat \<Rightarrow> pystr json \<Rightarrow> pystr opt_field option" where
  "optional_str lo hi Unset = Some NotSet"
| "optional_str lo hi Null = Some (SetTo None)"
| "optional_str lo hi (Val s) = (if len_between lo hi s then Some (SetTo (Some s)) else None)"
| "optional_str lo hi Mistyped = None"

fun optional_year :: "config \<Rightarrow> int json \<Rightarrow> int opt_field option" where
  "optional_year cfg Unset = Some NotSet"
| "optional_year cfg Null = Some (SetTo None)"
| "optional_year cfg (Val y) = (if year_in_range cfg y then Some (SetTo (Some y)) else None)"
| "optional_year cfg Mistyped = None"

text \<open>\<^verbatim>\<open>id: Optional[int] = None\<close>, with no bounds.\<close>

fun optional_int :: "int json \<Rightarrow> int opt_field option" where
  "optional_int Unset = Some NotSet"
| "optional_int Null = Some (SetTo None)"
| "optional_int (Val i) = Some (SetTo (Some i))"
| "optional_int Mistyped = None"

text \<open>The attribute of a validated model: the default \<^verbatim>\<open>None\<close> where the body set nothing.\<close>

fun attr :: "'a opt_field \<Rightarrow> 'a option" where
  "attr NotSet = None"
| "attr (SetTo v) = v"

definition failing :: "fld \<Rightarrow> 'a option \<Rightarrow> fld list" where
  "failing f v = (case v of None \<Rightarrow> [f] | Some _ \<Rightarrow> [])"

text \<open>
  \<^verbatim>\<open>Book.model_validate\<close>: every field is validated, and the errors of all of them are
  reported together.
\<close>

definition validate_Book :: "config \<Rightarrow> raw_book \<Rightarrow> error + Book" where
  "validate_Book cfg rb =
     (case (optional_int (in_id rb), required_str 1 200 (in_title rb),
            required_str 1 100 (in_author rb), required_year cfg (in_year rb),
            optional_str 10 13 (in_isbn rb)) of
        (Some i, Some t, Some a, Some y, Some s) \<Rightarrow>
          Inr \<lparr>bk_id = attr i, bk_title = t, bk_author = a, bk_year = y,
               bk_isbn = attr s\<rparr>
      | (i, t, a, y, s) \<Rightarrow>
          Inl (ValidationError
                 (failing F_id i @ failing F_title t @ failing F_author a @
                  failing F_year y @ failing F_isbn s)))"

definition validate_BookUpdate :: "config \<Rightarrow> raw_update \<Rightarrow> error + BookUpdate" where
  "validate_BookUpdate cfg ru =
     (case (optional_str 1 200 (patch_title ru), optional_str 1 100 (patch_author ru),
            optional_year cfg (patch_year ru), optional_str 10 13 (patch_isbn ru)) of
        (Some t, Some a, Some y, Some s) \<Rightarrow>
          Inr \<lparr>upd_title = t, upd_author = a, upd_year = y, upd_isbn = s\<rparr>
      | (t, a, y, s) \<Rightarrow>
          Inl (ValidationError
                 (failing F_title t @ failing F_author a @ failing F_year y @
                  failing F_isbn s)))"

text \<open>
  \<^verbatim>\<open>model_dump\<close> gives a dict from field names to values, in declaration order; an
  entry is a field name with a value of the field's type.
\<close>

datatype assignment =
    Set_title "pystr option"
  | Set_author "pystr option"
  | Set_year "int option"
  | Set_isbn "pystr option"

text \<open>\<^verbatim>\<open>book.model_dump(exclude={"id"})\<close>: every field but the id, defaults included.\<close>

definition model_dump_exclude_id :: "Book \<Rightarrow> assignment list" where
  "model_dump_exclude_id b =
     [Set_title (Some (bk_title b)), Set_author (Some (bk_author b)),
      Set_year (Some (bk_year b)), Set_isbn (bk_isbn b)]"

text \<open>\<^verbatim>\<open>book_update.model_dump(exclude_unset=True)\<close>: the fields the body set.\<close>

fun dump_field :: "('a option \<Rightarrow> assignment) \<Rightarrow> 'a opt_field \<Rightarrow> assignment list" where
  "dump_field mk NotSet = []"
| "dump_field mk (SetTo v) = [mk v]"

definition model_dump_exclude_unset :: "BookUpdate \<Rightarrow> assignment list" where
  "model_dump_exclude_unset u =
     dump_field Set_title (upd_title u) @ dump_field Set_author (upd_author u) @
     dump_field Set_year (upd_year u) @ dump_field Set_isbn (upd_isbn u)"

section \<open>The store\<close>

fun setattr :: "assignment \<Rightarrow> BookDB \<Rightarrow> BookDB" where
  "setattr (Set_title v) book = book\<lparr>db_title := v\<rparr>"
| "setattr (Set_author v) book = book\<lparr>db_author := v\<rparr>"
| "setattr (Set_year v) book = book\<lparr>db_year := v\<rparr>"
| "setattr (Set_isbn v) book = book\<lparr>db_isbn := v\<rparr>"

text \<open>\<^verbatim>\<open>for field, value in items: setattr(book, field, value)\<close>\<close>

definition setattrs :: "assignment list \<Rightarrow> BookDB \<Rightarrow> BookDB" where
  "setattrs items book = fold setattr items book"

text \<open>
  Modelled from the spec: the id the store gives a new row (the spec: unique,
  system-generated on creation). The numbering of an integer primary key is taken: one
  more than the largest id in the table, from 1.
\<close>

definition new_id :: "session \<Rightarrow> int" where
  "new_id db = fold max (map db_id db) 0 + 1"

text \<open>\<^verbatim>\<open>db.query(BookDB).filter(BookDB.id == book_id).first()\<close>\<close>

definition first_by_id :: "int \<Rightarrow> session \<Rightarrow> BookDB option" where
  "first_by_id book_id db = find (\<lambda>r. db_id r = book_id) db"

text \<open>
  The commit of a modified object is an \<^verbatim>\<open>UPDATE\<close> that writes the attributes
  assigned since it was loaded to the row of its primary key (no statement at all when
  nothing was assigned); the commit of a deleted one is a \<^verbatim>\<open>DELETE\<close> by primary key.
\<close>

definition commit_update :: "int \<Rightarrow> assignment list \<Rightarrow> session \<Rightarrow> session" where
  "commit_update pk items db = map (\<lambda>r. if db_id r = pk then setattrs items r else r) db"

definition commit_delete :: "int \<Rightarrow> session \<Rightarrow> session" where
  "commit_delete pk db = filter (\<lambda>r. db_id r \<noteq> pk) db"

section \<open>The handlers of main.py\<close>

subsection \<open>List (lines 31 to 58)\<close>

text \<open>
  The SQL \<^verbatim>\<open>LIKE\<close> of a pattern against a string, with the comparison of ordinary
  characters under a case folding \<open>f\<close>: \<^verbatim>\<open>%\<close> (code point 37) matches any run of
  characters, \<^verbatim>\<open>_\<close> (95) any one character. \<^verbatim>\<open>ilike\<close> is called with no
  \<^verbatim>\<open>escape\<close> argument, so no \<^verbatim>\<open>ESCAPE\<close> clause is emitted.
\<close>

fun like :: "(nat \<Rightarrow> nat) \<Rightarrow> pystr \<Rightarrow> pystr \<Rightarrow> bool" where
  "like f [] s = (s = [])"
| "like f (p # ps) [] = (p = 37 \<and> like f ps [])"
| "like f (p # ps) (c # cs) =
     (if p = 37 then like f ps (c # cs) \<or> like f (p # ps) cs
      else (p = 95 \<or> f p = f c) \<and> like f ps cs)"

text \<open>
  \<^verbatim>\<open>BookDB.author.ilike(pattern)\<close> as a filter condition: on a \<^verbatim>\<open>NULL\<close> column the
  condition is \<^verbatim>\<open>NULL\<close>, and the row is not selected.
\<close>

definition ilike :: "config \<Rightarrow> pystr option \<Rightarrow> pystr \<Rightarrow> bool" where
  "ilike cfg col pattern = (case col of None \<Rightarrow> False | Some s \<Rightarrow> like (lower_cp cfg) pattern s)"

definition year_ge :: "int option \<Rightarrow> int \<Rightarrow> bool" where
  "year_ge col y = (case col of None \<Rightarrow> False | Some c \<Rightarrow> y \<le> c)"

definition year_le :: "int option \<Rightarrow> int \<Rightarrow> bool" where
  "year_le col y = (case col of None \<Rightarrow> False | Some c \<Rightarrow> c \<le> y)"

text \<open>
  \<^verbatim>\<open>query.offset(skip).limit(limit).all()\<close>. The handler does not check the sign of
  either parameter.
\<close>

definition offset_limit :: "config \<Rightarrow> int \<Rightarrow> int \<Rightarrow> BookDB list \<Rightarrow> BookDB list" where
  "offset_limit cfg skip limit rows =
     (if 0 \<le> skip \<and> 0 \<le> limit then take (nat limit) (drop (nat skip) rows)
      else odd_page cfg skip limit rows)"

text \<open>
  The three \<^verbatim>\<open>if\<close>s test the truth value of the parameter: \<^verbatim>\<open>None\<close>, the empty
  string and 0 are false.
\<close>

definition get_books ::
  "config \<Rightarrow> int \<Rightarrow> int \<Rightarrow> pystr option \<Rightarrow> int option \<Rightarrow> int option \<Rightarrow> session \<Rightarrow> BookDB list" where
  "get_books cfg skip limit author year_from year_to db =
     (let query = db;
          query = (case author of
                     Some a \<Rightarrow>
                       if a \<noteq> [] then filter (\<lambda>r. ilike cfg (db_author r) ([37] @ a @ [37])) query
                       else query
                   | None \<Rightarrow> query);
          query = (case year_from of
                     Some y \<Rightarrow> if y \<noteq> 0 then filter (\<lambda>r. year_ge (db_year r) y) query else query
                   | None \<Rightarrow> query);
          query = (case year_to of
                     Some y \<Rightarrow> if y \<noteq> 0 then filter (\<lambda>r. year_le (db_year r) y) query else query
                   | None \<Rightarrow> query)
      in offset_limit cfg skip limit query)"

subsection \<open>Get by id (lines 61 to 73)\<close>

definition get_book :: "int \<Rightarrow> session \<Rightarrow> error + BookDB" where
  "get_book book_id db =
     (case first_by_id book_id db of
        Some book \<Rightarrow> Inr book
      | None \<Rightarrow> Inl (NotFound book_id))"

subsection \<open>Create (lines 76 to 88)\<close>

text \<open>
  \<^verbatim>\<open>BookDB(**book.model_dump(exclude={"id"}))\<close> sets the attributes of a new object
  from the dict; \<^verbatim>\<open>add\<close> and \<^verbatim>\<open>commit\<close> insert it, the store numbers it, and
  \<^verbatim>\<open>refresh\<close> reads the row back.
\<close>

definition create_book :: "Book \<Rightarrow> session \<Rightarrow> BookDB \<times> session" where
  "create_book book db =
     (let db_book = setattrs (model_dump_exclude_id book)
                      \<lparr>db_id = new_id db, db_title = None, db_author = None,
                       db_year = None, db_isbn = None\<rparr>
      in (db_book, db @ [db_book]))"

subsection \<open>Full update (lines 91 to 112)\<close>

definition update_book :: "int \<Rightarrow> Book \<Rightarrow> session \<Rightarrow> (error + BookDB) \<times> session" where
  "update_book book_id updated_book db =
     (case first_by_id book_id db of
        None \<Rightarrow> (Inl (NotFound book_id), db)
      | Some book \<Rightarrow>
          (let items = model_dump_exclude_id updated_book;
               book' = setattrs items book
           in (Inr book', commit_update (db_id book) items db)))"

subsection \<open>Partial update (lines 115 to 137)\<close>

definition partial_update_book ::
  "int \<Rightarrow> BookUpdate \<Rightarrow> session \<Rightarrow> (error + BookDB) \<times> session" where
  "partial_update_book book_id book_update db =
     (case first_by_id book_id db of
        None \<Rightarrow> (Inl (NotFound book_id), db)
      | Some book \<Rightarrow>
          (let update_data = model_dump_exclude_unset book_update;
               book' = setattrs update_data book
           in (Inr book', commit_update (db_id book) update_data db)))"

subsection \<open>Delete (lines 160 to 177)\<close>

definition delete_book :: "int \<Rightarrow> session \<Rightarrow> (error + unit) \<times> session" where
  "delete_book book_id db =
     (case first_by_id book_id db of
        None \<Rightarrow> (Inl (NotFound book_id), db)
      | Some book \<Rightarrow> (Inr (), commit_delete (db_id book) db))"

subsection \<open>Statistics (lines 140 to 157)\<close>

text \<open>
  \<^verbatim>\<open>Counter(iterable)\<close> counts the elements one by one; as a dict it keeps its keys
  in the order of their first occurrence.
\<close>

fun counter_add :: "'a \<Rightarrow> ('a \<times> nat) list \<Rightarrow> ('a \<times> nat) list" where
  "counter_add x [] = [(x, 1)]"
| "counter_add x ((k, n) # kvs) =
     (if k = x then (k, n + 1) # kvs else (k, n) # counter_add x kvs)"

definition Counter :: "'a list \<Rightarrow> ('a \<times> nat) list" where
  "Counter xs = fold counter_add xs []"

text \<open>\<^verbatim>\<open>d[k] = v\<close> on a dict kept as an association list in insertion order.\<close>

fun dict_set :: "'k \<Rightarrow> 'v \<Rightarrow> ('k \<times> 'v) list \<Rightarrow> ('k \<times> 'v) list" where
  "dict_set k v [] = [(k, v)]"
| "dict_set k v ((k', v') # kvs) =
     (if k' = k then (k', v) # kvs else (k', v') # dict_set k v kvs)"

text \<open>\<^verbatim>\<open>str(n)\<close> of an int: the decimal digits (code points 48 to 57), \<^verbatim>\<open>-\<close> is 45.\<close>

fun digits :: "nat \<Rightarrow> pystr" where
  "digits n = (if n < 10 then [48 + n] else digits (n div 10) @ [48 + n mod 10])"

definition str_int :: "int \<Rightarrow> pystr" where
  "str_int i = (if i < 0 then 45 # digits (nat (- i)) else digits (nat i))"

text \<open>The f-string of line 156: the century, a space, and the Cyrillic word for century.\<close>

definition century_label :: "int \<Rightarrow> pystr" where
  "century_label century = str_int century @ [32, 1074, 1077, 1082]"

text \<open>\<^verbatim>\<open>book.year // 100 + 1\<close> for every book; \<^verbatim>\<open>//\<close> on \<^verbatim>\<open>None\<close> raises TypeError.\<close>

fun centuries_of :: "BookDB list \<Rightarrow> error + int list" where
  "centuries_of [] = Inr []"
| "centuries_of (book # books) =
     (case db_year book of
        None \<Rightarrow> Inl TypeError
      | Some y \<Rightarrow>
          (case centuries_of books of
             Inl e \<Rightarrow> Inl e
           | Inr cs \<Rightarrow> Inr ((y div 100 + 1) # cs)))"

record stats =
  total_books :: nat
  books_by_author :: "(pystr option \<times> nat) list"
  books_by_century :: "(pystr \<times> nat) list"

definition get_statistics :: "session \<Rightarrow> error + stats" where
  "get_statistics db =
     (let books = db;
          total = length books;
          authors = Counter (map db_author books)
      in case centuries_of books of
           Inl e \<Rightarrow> Inl e
         | Inr cs \<Rightarrow>
             (let centuries = Counter cs
              in Inr \<lparr>total_books = total,
                      books_by_author = authors,
                      books_by_century =
                        fold (\<lambda>(century, count). dict_set (century_label century) count)
                          centuries []\<rparr>))"

section \<open>The application: dependencies, request and response models\<close>

text \<open>
  Modelled from the spec: \<^verbatim>\<open>verify_api_key\<close> of \<^verbatim>\<open>auth.py\<close>, which is not among the
  sources. The spec: the caller's credential must equal the configured secret; a
  mismatch or an absent credential fails with an AuthError, with no side effect.
\<close>

definition verify_api_key :: "config \<Rightarrow> pystr option \<Rightarrow> error + pystr" where
  "verify_api_key cfg credential =
     (case credential of
        None \<Rightarrow> Inl AuthError
      | Some k \<Rightarrow> if k = secret cfg then Inr k else Inl AuthError)"

text \<open>
  \<^verbatim>\<open>response_model=Book\<close>: the returned object is validated against \<^verbatim>\<open>Book\<close>, read
  from its attributes; an object that fails is a server error.
\<close>

definition from_attributes :: "BookDB \<Rightarrow> raw_book" where
  "from_attributes r =
     \<lparr>in_id = Val (db_id r),
      in_title = (case db_title r of None \<Rightarrow> Null | Some s \<Rightarrow> Val s),
      in_author = (case db_author r of None \<Rightarrow> Null | Some s \<Rightarrow> Val s),
      in_year = (case db_year r of None \<Rightarrow> Null | Some y \<Rightarrow> Val y),
      in_isbn = (case db_isbn r of None \<Rightarrow> Null | Some s \<Rightarrow> Val s)\<rparr>"

definition response_model_Book :: "config \<Rightarrow> BookDB \<Rightarrow> error + Book" where
  "response_model_Book cfg r =
     (case validate_Book cfg (from_attributes r) of
        Inl e \<Rightarrow> Inl ResponseValidationError
      | Inr b \<Rightarrow> Inr b)"

fun response_model_List :: "config \<Rightarrow> BookDB list \<Rightarrow> error + Book list" where
  "response_model_List cfg [] = Inr []"
| "response_model_List cfg (r # rs) =
     (case response_model_Book cfg r of
        Inl e \<Rightarrow> Inl e
      | Inr b \<Rightarrow>
          (case response_model_List cfg rs of
             Inl e \<Rightarrow> Inl e
           | Inr bs \<Rightarrow> Inr (b # bs)))"

text \<open>The seven routes of the decorators, with what each reads from the request.\<close>

datatype request =
    GET_books int int "pystr option" "int option" "int option"
  | GET_book int
  | POST_book raw_book
  | PUT_book int raw_book
  | PATCH_book int raw_update
  | GET_stats
  | DELETE_book int

datatype response =
    OK_books "Book list"
  | OK_book Book
  | Created Book
  | OK_stats stats
  | No_content

text \<open>
  One request against the application. For the four routes that declare
  \<^verbatim>\<open>Depends(verify_api_key)\<close> the dependency runs first and its exception ends the
  request; then the body is validated, the handler runs, and what it returns is put
  through the route's response model. The three reading routes declare no such
  dependency.
\<close>

fun app :: "config \<Rightarrow> pystr option \<Rightarrow> request \<Rightarrow> session \<Rightarrow> (error + response) \<times> session" where
  "app cfg credential (GET_books skip limit author year_from year_to) db =
     (case response_model_List cfg (get_books cfg skip limit author year_from year_to db) of
        Inl e \<Rightarrow> (Inl e, db)
      | Inr bs \<Rightarrow> (Inr (OK_books bs), db))"
| "app cfg credential (GET_book book_id) db =
     (case get_book book_id db of
        Inl e \<Rightarrow> (Inl e, db)
      | Inr r \<Rightarrow>
          (case response_model_Book cfg r of
             Inl e \<Rightarrow> (Inl e, db)
           | Inr b \<Rightarrow> (Inr (OK_book b), db)))"
| "app cfg credential (POST_book body) db =
     (case verify_api_key cfg credential of
        Inl e \<Rightarrow> (Inl e, db)
      | Inr api_key \<Rightarrow>
          (case validate_Book cfg body of
             Inl e \<Rightarrow> (Inl e, db)
           | Inr book \<Rightarrow>
               (case create_book book db of
                  (r, db') \<Rightarrow>
                    (case response_model_Book cfg r of
                       Inl e \<Rightarrow> (Inl e, db')
                     | Inr b \<Rightarrow> (Inr (Created b), db')))))"
| "app cfg credential (PUT_book book_id body) db =
     (case verify_api_key cfg credential of
        Inl e \<Rightarrow> (Inl e, db)
      | Inr api_key \<Rightarrow>
          (case validate_Book cfg body of
             Inl e \<Rightarrow> (Inl e, db)
           | Inr updated_book \<Rightarrow>
               (case update_book book_id updated_book db of
                  (Inl e, db') \<Rightarrow> (Inl e, db')
                | (Inr r, db') \<Rightarrow>
                    (case response_model_Book cfg r of
                       Inl e \<Rightarrow> (Inl e, db')
                     | Inr b \<Rightarrow> (Inr (OK_book b), db')))))"
| "app cfg credential (PATCH_book book_id body) db =
     (case verify_api_key cfg credential of
        Inl e \<Rightarrow> (Inl e, db)
      | Inr api_key \<Rightarrow>
          (case validate_BookUpdate cfg body of
             Inl e \<Rightarrow> (Inl e, db)
           | Inr book_update \<Rightarrow>
               (case partial_update_book book_id book_update db of
                  (Inl e, db') \<Rightarrow> (Inl e, db')
                | (Inr r, db') \<Rightarrow>
                    (case response_model_Book cfg r of
                       Inl e \<Rightarrow> (Inl e, db')
                     | Inr b \<Rightarrow> (Inr (OK_book b), db')))))"
| "app cfg credential GET_stats db =
     (case get_statistics db of
        Inl e \<Rightarrow> (Inl e, db)
      | Inr s \<Rightarrow> (Inr (OK_stats s), db))"
| "app cfg credential (DELETE_book book_id) db =
     (case verify_api_key cfg credential of
        Inl e \<Rightarrow> (Inl e, db)
      | Inr api_key \<Rightarrow>
          (case delete_book book_id db of
             (Inl e, db') \<Rightarrow> (Inl e, db')
           | (Inr u, db') \<Rightarrow> (Inr No_content, db')))"

section \<open>Sample data\<close>

text \<open>
  The three books of \<^verbatim>\<open>init_db.py\<close>, as the rows the store holds after
  \<^verbatim>\<open>init_database()\<close> on an empty table (ids 1 to 3).
\<close>

definition tolstoy :: pystr where
  "tolstoy = [1051, 1077, 1074, 32, 1058, 1086, 1083, 1089, 1090, 1086, 1081]"

definition dostoevsky :: pystr where
  "dostoevsky = [1060, 1077, 1076, 1086, 1088, 32, 1044, 1086, 1089, 1090, 1086, 1077, 1074,
                 1089, 1082, 1080, 1081]"

definition pushkin :: pystr where
  "pushkin = [1040, 1083, 1077, 1082, 1089, 1072, 1085, 1076, 1088, 32, 1055, 1091, 1096,
              1082, 1080, 1085]"

definition war_and_peace :: BookDB where
  "war_and_peace =
     \<lparr>db_id = 1,
      db_title = Some [1042, 1086, 1081, 1085, 1072, 32, 1080, 32, 1084, 1080, 1088],
      db_author = Some tolstoy, db_year = Some 1869,
      db_isbn = Some [57, 55, 56, 53, 49, 55, 48, 57, 56, 55, 54, 53, 52]\<rparr>"

definition crime_and_punishment :: BookDB where
  "crime_and_punishment =
     \<lparr>db_id = 2,
      db_title = Some [1055, 1088, 1077, 1089, 1090, 1091, 1087, 1083, 1077, 1085, 1080, 1077,
                       32, 1080, 32, 1085, 1072, 1082, 1072, 1079, 1072, 1085, 1080, 1077],
      db_author = Some dostoevsky, db_year = Some 1866,
      db_isbn = Some [57, 55, 56, 53, 49, 55, 48, 56, 55, 54, 53, 52, 51]\<rparr>"

definition eugene_onegin :: BookDB where
  "eugene_onegin =
     \<lparr>db_id = 3,
      db_title = Some [1045, 1074, 1075, 1077, 1085, 1080, 1081, 32, 1054, 1085, 1077, 1075,
                       1080, 1085],
      db_author = Some pushkin, db_year = Some 1833,
      db_isbn = Some [57, 55, 56, 53, 49, 55, 48, 55, 54, 53, 52, 51, 50]\<rparr>"

definition initial_books :: session where
  "initial_books = [war_and_peace, crime_and_punishment, eugene_onegin]"

text \<open>
  A configuration to evaluate with: the year 2025, the key \<^verbatim>\<open>key\<close>, a store that
  folds the Latin and the Cyrillic capitals, and that reads a negative offset or limit
  as none.
\<close>

definition fold_latin_cyrillic :: "nat \<Rightarrow> nat" where
  "fold_latin_cyrillic c =
     (if 65 \<le> c \<and> c \<le> 90 then c + 32
      else if 1040 \<le> c \<and> c \<le> 1071 then c + 32
      else if 1024 \<le> c \<and> c \<le> 1039 then c + 80
      else c)"

definition sample_config :: config where
  "sample_config =
     \<lparr>now_year = 2025, secret = [107, 101, 121], lower_cp = fold_latin_cyrillic,
      odd_page = (\<lambda>skip limit rows. rows)\<rparr>"

section \<open>Lemmas on the store\<close>

lemma first_by_id_None: "first_by_id book_id db = None \<longleftrightarrow> book_id \<notin> set (map db_id db)"
  by (induction db) (auto simp: first_by_id_def)

lemma first_by_id_Some: "first_by_id book_id db = Some r \<Longrightarrow> db_id r = book_id \<and> r \<in> set db"
  by (induction db) (auto simp: first_by_id_def split: if_splits)

lemma first_by_id_commit_delete: "first_by_id book_id (commit_delete book_id db) = None"
  by (auto simp: first_by_id_None commit_delete_def)

lemma fold_max_ge: "(a::int) \<le> fold max xs a"
  by (induction xs arbitrary: a) (auto intro: order_trans [OF max.cobounded2])

lemma fold_max_mem: "x \<in> set xs \<Longrightarrow> (x::int) \<le> fold max xs a"
proof (induction xs arbitrary: a)
  case Nil
  then show ?case by simp
next
  case (Cons y ys)
  show ?case
  proof (cases "x = y")
    case True
    have "y \<le> max y a" by simp
    also have "\<dots> \<le> fold max ys (max y a)" by (rule fold_max_ge)
    finally show ?thesis using True by simp
  next
    case False
    then show ?thesis using Cons by simp
  qed
qed

lemma new_id_fresh: "new_id db \<notin> set (map db_id db)"
proof
  assume "new_id db \<in> set (map db_id db)"
  then have "new_id db \<le> fold max (map db_id db) 0" by (rule fold_max_mem)
  then show False by (simp add: new_id_def)
qed

lemma setattrs_dump_Book:
  "setattrs (model_dump_exclude_id b) r =
     \<lparr>db_id = db_id r, db_title = Some (bk_title b), db_author = Some (bk_author b),
      db_year = Some (bk_year b), db_isbn = bk_isbn b\<rparr>"
  by (simp add: setattrs_def model_dump_exclude_id_def)

lemma validate_Book_Inr:
  "validate_Book cfg rb = Inr b \<longleftrightarrow>
     (\<exists>i s. optional_int (in_id rb) = Some i \<and> required_str 1 200 (in_title rb) = Some (bk_title b)
        \<and> required_str 1 100 (in_author rb) = Some (bk_author b)
        \<and> required_year cfg (in_year rb) = Some (bk_year b)
        \<and> optional_str 10 13 (in_isbn rb) = Some s \<and> bk_id b = attr i \<and> bk_isbn b = attr s
        \<and> Book.more b = ())"
  by (cases b) (auto simp: validate_Book_def split: option.splits)

section \<open>The list filters\<close>

text \<open>
  C8. The list operation applies its author, year_from and year_to filters only when the
  supplied value is truthy: an empty author string, a year_from of 0 and a year_to of 0
  each give the result of the call without that parameter, and a call with year_from 0
  and no other filter returns the page of the whole table, rows of every year. In
  general the result is the page of the rows that pass every filter whose parameter is
  neither absent nor empty nor 0.
\<close>

theorem get_books_truthy_filters:
  "get_books cfg skip limit (Some []) year_from year_to db =
     get_books cfg skip limit None year_from year_to db
   \<and> get_books cfg skip limit author (Some 0) year_to db =
     get_books cfg skip limit author None year_to db
   \<and> get_books cfg skip limit author year_from (Some 0) db =
     get_books cfg skip limit author year_from None db
   \<and> get_books cfg skip limit None (Some 0) None db = offset_limit cfg skip limit db
   \<and> get_books cfg skip limit author year_from year_to db =
     offset_limit cfg skip limit
       (filter (\<lambda>r. (case author of None \<Rightarrow> True
                      | Some a \<Rightarrow> a = [] \<or> ilike cfg (db_author r) ([37] @ a @ [37]))
                   \<and> (case year_from of None \<Rightarrow> True
                      | Some y \<Rightarrow> y = 0 \<or> year_ge (db_year r) y)
                   \<and> (case year_to of None \<Rightarrow> True
                      | Some y \<Rightarrow> y = 0 \<or> year_le (db_year r) y)) db)"
proof -
  have all: "get_books cfg skip limit author year_from year_to db =
     offset_limit cfg skip limit
       (filter (\<lambda>r. (case author of None \<Rightarrow> True
                      | Some a \<Rightarrow> a = [] \<or> ilike cfg (db_author r) ([37] @ a @ [37]))
                   \<and> (case year_from of None \<Rightarrow> True
                      | Some y \<Rightarrow> y = 0 \<or> year_ge (db_year r) y)
                   \<and> (case year_to of None \<Rightarrow> True
                      | Some y \<Rightarrow> y = 0 \<or> year_le (db_year r) y)) db)"
    by (cases author; cases year_from; cases year_to)
       (auto simp: get_books_def conj_commute intro: arg_cong [where f = "offset_limit cfg skip limit"] filter_cong)
  show ?thesis
    using all by (simp add: get_books_def)
qed

section \<open>Delete, then get\<close>

text \<open>
  C9. With the key accepted: delete on an id present in the store answers 204 with no
  body and removes the record, after which the id is absent and get-by-id on it (by any
  caller) fails with NotFound; delete on an absent id fails with NotFound and leaves
  the store as it was.
\<close>

theorem delete_then_get:
  assumes "verify_api_key cfg credential = Inr k"
  shows "app cfg credential (DELETE_book book_id) db =
           (if book_id \<in> set (map db_id db)
            then (Inr No_content, filter (\<lambda>r. db_id r \<noteq> book_id) db)
            else (Inl (NotFound book_id), db))
         \<and> (book_id \<in> set (map db_id db) \<longrightarrow>
              book_id \<notin> set (map db_id (snd (app cfg credential (DELETE_book book_id) db)))
              \<and> app cfg credential' (GET_book book_id)
                    (snd (app cfg credential (DELETE_book book_id) db)) =
                  (Inl (NotFound book_id), snd (app cfg credential (DELETE_book book_id) db)))"
proof (cases "first_by_id book_id db")
  case None
  then have absent: "book_id \<notin> set (map db_id db)"
    by (simp add: first_by_id_None)
  show ?thesis
    using assms absent by (simp add: None delete_book_def)
next
  case (Some book)
  then have pk: "db_id book = book_id" and present: "book_id \<in> set (map db_id db)"
    using first_by_id_Some [OF Some] by auto
  have del: "app cfg credential (DELETE_book book_id) db = (Inr No_content, commit_delete book_id db)"
    using assms Some pk by (simp add: delete_book_def)
  have gone: "first_by_id book_id (commit_delete book_id db) = None"
    by (rule first_by_id_commit_delete)
  have get: "app cfg credential' (GET_book book_id) (commit_delete book_id db) =
               (Inl (NotFound book_id), commit_delete book_id db)"
    using gone by (simp add: get_book_def)
  have absent: "book_id \<notin> set (map db_id (commit_delete book_id db))"
    using gone first_by_id_None [of book_id "commit_delete book_id db"] by blast
  show ?thesis
    unfolding del using present get absent by (simp add: commit_delete_def)
qed

theorem delete_then_get_witness:
  "verify_api_key sample_config (Some [107, 101, 121]) = Inr [107, 101, 121]
   \<and> 2 \<in> set (map db_id initial_books)
   \<and> app sample_config (Some [107, 101, 121]) (DELETE_book 2) initial_books =
       (Inr No_content, [war_and_peace, eugene_onegin])
   \<and> app sample_config None (GET_book 2) [war_and_peace, eugene_onegin] =
       (Inl (NotFound 2), [war_and_peace, eugene_onegin])"
proof -
  have key: "verify_api_key sample_config (Some [107, 101, 121]) = Inr [107, 101, 121]"
    by (simp add: verify_api_key_def sample_config_def)
  have rows: "filter (\<lambda>r. db_id r \<noteq> 2) initial_books = [war_and_peace, eugene_onegin]"
    by (simp add: initial_books_def war_and_peace_def crime_and_punishment_def
        eugene_onegin_def)
  have ids: "2 \<in> set (map db_id initial_books)"
    by (simp add: initial_books_def crime_and_punishment_def)
  note inst = delete_then_get [OF key, of 2 initial_books None]
  from inst have del: "app sample_config (Some [107, 101, 121]) (DELETE_book 2) initial_books =
      (Inr No_content, [war_and_peace, eugene_onegin])"
    by (simp only: ids rows if_True)
  from inst ids have "app sample_config None (GET_book 2)
      (snd (app sample_config (Some [107, 101, 121]) (DELETE_book 2) initial_books)) =
      (Inl (NotFound 2), snd (app sample_config (Some [107, 101, 121]) (DELETE_book 2) initial_books))"
    by blast
  then have get: "app sample_config None (GET_book 2) [war_and_peace, eugene_onegin] =
       (Inl (NotFound 2), [war_and_peace, eugene_onegin])"
    by (simp only: del snd_conv)
  show ?thesis
    using key ids del get by blast
qed

section \<open>The id of the request body\<close>

lemma create_book_ignores_id: "create_book (b\<lparr>bk_id := i\<rparr>) db = create_book b db"
  by (simp add: create_book_def setattrs_dump_Book Let_def)

lemma update_book_ignores_id: "update_book book_id (b\<lparr>bk_id := i\<rparr>) db = update_book book_id b db"
  by (simp add: update_book_def model_dump_exclude_id_def Let_def split: option.splits)

lemma validate_Book_id:
  "validate_Book cfg (rb\<lparr>in_id := Val i\<rparr>) =
     (case validate_Book cfg (rb\<lparr>in_id := Unset\<rparr>) of
        Inl e \<Rightarrow> Inl e
      | Inr b \<Rightarrow> Inr (b\<lparr>bk_id := Some i\<rparr>))"
  by (simp add: validate_Book_def failing_def split: option.splits)

lemma validate_Book_null_id:
  "validate_Book cfg (rb\<lparr>in_id := Null\<rparr>) = validate_Book cfg (rb\<lparr>in_id := Unset\<rparr>)"
  by (simp add: validate_Book_def failing_def split: option.splits)

text \<open>
  C10. An id in the request body is ignored. A create whose body carries any integer id
  (or a null id) does what the same create without an id does, and the new row gets the
  id the store chooses, one that no row of the table has. A full update whose body
  carries any integer id (or a null id) does what the same update without one does; it
  changes no row's id, and the row it returns has the id of the path.
\<close>

theorem body_id_ignored:
  "app cfg credential (POST_book (body\<lparr>in_id := Val i\<rparr>)) db =
     app cfg credential (POST_book (body\<lparr>in_id := Unset\<rparr>)) db
   \<and> app cfg credential (POST_book (body\<lparr>in_id := Null\<rparr>)) db =
     app cfg credential (POST_book (body\<lparr>in_id := Unset\<rparr>)) db
   \<and> app cfg credential (PUT_book book_id (body\<lparr>in_id := Val i\<rparr>)) db =
     app cfg credential (PUT_book book_id (body\<lparr>in_id := Unset\<rparr>)) db
   \<and> app cfg credential (PUT_book book_id (body\<lparr>in_id := Null\<rparr>)) db =
     app cfg credential (PUT_book book_id (body\<lparr>in_id := Unset\<rparr>)) db
   \<and> db_id (fst (create_book book db)) = new_id db
   \<and> new_id db \<notin> set (map db_id db)
   \<and> map db_id (snd (update_book book_id book db)) = map db_id db
   \<and> (case fst (update_book book_id book db) of
         Inr r \<Rightarrow> db_id r = book_id
       | Inl e \<Rightarrow> e = NotFound book_id)"
proof -
  have post: "app cfg credential (POST_book (body\<lparr>in_id := Val i\<rparr>)) db =
     app cfg credential (POST_book (body\<lparr>in_id := Unset\<rparr>)) db"
    by (simp add: validate_Book_id create_book_ignores_id split: sum.splits)
  have post_null: "app cfg credential (POST_book (body\<lparr>in_id := Null\<rparr>)) db =
     app cfg credential (POST_book (body\<lparr>in_id := Unset\<rparr>)) db"
    by (simp add: validate_Book_null_id cong: sum.case_cong)
  have put: "app cfg credential (PUT_book book_id (body\<lparr>in_id := Val i\<rparr>)) db =
     app cfg credential (PUT_book book_id (body\<lparr>in_id := Unset\<rparr>)) db"
    by (simp add: validate_Book_id update_book_ignores_id split: sum.splits)
  have put_null: "app cfg credential (PUT_book book_id (body\<lparr>in_id := Null\<rparr>)) db =
     app cfg credential (PUT_book book_id (body\<lparr>in_id := Unset\<rparr>)) db"
    by (simp add: validate_Book_null_id cong: sum.case_cong)
  have new: "db_id (fst (create_book book db)) = new_id db"
    by (simp add: create_book_def setattrs_dump_Book Let_def)
  have ids: "map db_id (snd (update_book book_id book db)) = map db_id db"
    by (simp add: update_book_def commit_update_def setattrs_dump_Book Let_def split: option.splits)
  have kept: "(case fst (update_book book_id book db) of
         Inr r \<Rightarrow> db_id r = book_id
       | Inl e \<Rightarrow> e = NotFound book_id)"
    by (auto simp: update_book_def setattrs_dump_Book Let_def split: option.splits
        dest: first_by_id_Some)
  show ?thesis
    using post post_null put put_null new new_id_fresh [of db] ids kept by blast
qed

section \<open>The API key\<close>

lemma verify_api_key_rejects:
  "credential \<noteq> Some (secret cfg) \<Longrightarrow> verify_api_key cfg credential = Inl AuthError"
  by (cases credential) (auto simp: verify_api_key_def)

lemma response_model_Book_not_auth: "response_model_Book cfg r \<noteq> Inl AuthError"
  by (simp add: response_model_Book_def split: sum.splits)

lemma response_model_List_not_auth: "response_model_List cfg rs \<noteq> Inl AuthError"
  by (induction rs) (auto simp: response_model_Book_not_auth split: sum.splits)

lemma centuries_of_not_auth: "centuries_of rs \<noteq> Inl AuthError"
  by (induction rs) (auto split: option.splits sum.splits)

text \<open>
  C5. When the caller's credential is absent or is not the configured secret, each of
  the four mutating routes (create, full update, partial update, delete) fails with
  AuthError and the store is as it was. The three reading routes (list, get-by-id,
  stats) answer such a caller exactly as they answer one who presents the secret, and
  never with AuthError.
\<close>

theorem writes_need_the_key:
  assumes "credential \<noteq> Some (secret cfg)"
  shows "app cfg credential (POST_book body) db = (Inl AuthError, db)
       \<and> app cfg credential (PUT_book book_id body) db = (Inl AuthError, db)
       \<and> app cfg credential (PATCH_book book_id patch) db = (Inl AuthError, db)
       \<and> app cfg credential (DELETE_book book_id) db = (Inl AuthError, db)
       \<and> app cfg credential (GET_books skip limit author year_from year_to) db =
           app cfg (Some (secret cfg)) (GET_books skip limit author year_from year_to) db
       \<and> app cfg credential (GET_book book_id) db = app cfg (Some (secret cfg)) (GET_book book_id) db
       \<and> app cfg credential GET_stats db = app cfg (Some (secret cfg)) GET_stats db
       \<and> fst (app cfg credential (GET_books skip limit author year_from year_to) db) \<noteq> Inl AuthError
       \<and> fst (app cfg credential (GET_book book_id) db) \<noteq> Inl AuthError
       \<and> fst (app cfg credential GET_stats db) \<noteq> Inl AuthError"
proof -
  have no: "verify_api_key cfg credential = Inl AuthError"
    using assms by (rule verify_api_key_rejects)
  have list: "fst (app cfg credential (GET_books skip limit author year_from year_to) db) \<noteq> Inl AuthError"
    using response_model_List_not_auth [of cfg "get_books cfg skip limit author year_from year_to db"]
    by (auto split: sum.splits)
  have one: "fst (app cfg credential (GET_book book_id) db) \<noteq> Inl AuthError"
    using response_model_Book_not_auth [of cfg]
    by (auto simp: get_book_def split: sum.splits option.splits)
  have stats: "fst (app cfg credential GET_stats db) \<noteq> Inl AuthError"
    using centuries_of_not_auth [of db]
    by (auto simp: get_statistics_def Let_def split: sum.splits)
  show ?thesis
    using list one stats by (simp add: no)
qed

theorem writes_need_the_key_witness:
  "None \<noteq> Some (secret sample_config)
   \<and> app sample_config None (DELETE_book 1) initial_books = (Inl AuthError, initial_books)
   \<and> Some [120] \<noteq> Some (secret sample_config)
   \<and> app sample_config (Some [120]) (DELETE_book 1) initial_books = (Inl AuthError, initial_books)"
proof -
  have a: "None \<noteq> Some (secret sample_config)" by simp
  have b: "Some [120] \<noteq> Some (secret sample_config)" by (simp add: sample_config_def)
  show ?thesis
    using writes_need_the_key [OF a, where db = initial_books and book_id = 1]
      writes_need_the_key [OF b, where db = initial_books and book_id = 1] a b
    by blast
qed

section \<open>The year of a new book\<close>

lemma required_year_out_of_range:
  "now_year cfg \<le> current_year \<Longrightarrow> y < 1000 \<or> current_year < y \<Longrightarrow>
   required_year cfg (Val y) = None"
  by (auto simp: year_in_range_def)

lemma validate_Book_bad_year:
  assumes "required_year cfg (in_year body) = None"
  shows "\<exists>fields. validate_Book cfg body = Inl (ValidationError fields) \<and> F_year \<in> set fields"
  using assms by (simp add: validate_Book_def failing_def split: option.splits)

text \<open>
  C4. A create whose year is below 1000 or above the current calendar year never
  reaches the store: whatever the credential, the store after the request is the store
  before it, and for a caller who presents the key the request fails with a
  ValidationError that names the field year. The bound of the model is the year in
  which the process loaded the model classes, which is not after the current year.
\<close>

theorem create_rejects_year_out_of_range:
  assumes "now_year cfg \<le> current_year"
    and "in_year body = Val y"
    and "y < 1000 \<or> current_year < y"
  shows "snd (app cfg credential (POST_book body) db) = db
       \<and> (\<exists>fields. app cfg (Some (secret cfg)) (POST_book body) db =
                      (Inl (ValidationError fields), db) \<and> F_year \<in> set fields)"
proof -
  have "required_year cfg (in_year body) = None"
    using assms by (simp only: required_year_out_of_range)
  then obtain fields where bad: "validate_Book cfg body = Inl (ValidationError fields)"
    and year: "F_year \<in> set fields"
    using validate_Book_bad_year by blast
  have key: "verify_api_key cfg (Some (secret cfg)) = Inr (secret cfg)"
    by (simp add: verify_api_key_def)
  have unchanged: "snd (app cfg credential (POST_book body) db) = db"
    by (simp add: bad split: sum.splits)
  have rejected: "app cfg (Some (secret cfg)) (POST_book body) db = (Inl (ValidationError fields), db)"
    by (simp add: bad key)
  show ?thesis
    using unchanged rejected year by blast
qed

theorem create_rejects_year_out_of_range_witness:
  "now_year sample_config \<le> 2026
   \<and> in_year \<lparr>in_id = Unset, in_title = Val [65], in_author = Val [66], in_year = Val 2027,
               in_isbn = Unset\<rparr> = Val 2027
   \<and> ((2027::int) < 1000 \<or> (2026::int) < 2027)
   \<and> snd (app sample_config None
             (POST_book \<lparr>in_id = Unset, in_title = Val [65], in_author = Val [66],
                         in_year = Val 2027, in_isbn = Unset\<rparr>) initial_books) = initial_books
   \<and> app sample_config (Some (secret sample_config))
        (POST_book \<lparr>in_id = Unset, in_title = Val [65], in_author = Val [66],
                    in_year = Val 2027, in_isbn = Unset\<rparr>) initial_books =
       (Inl (ValidationError [F_year]), initial_books)"
proof -
  let ?body = "\<lparr>in_id = Unset, in_title = Val [65], in_author = Val [66], in_year = Val 2027,
               in_isbn = Unset\<rparr>"
  have a: "now_year sample_config \<le> 2026" by (simp add: sample_config_def)
  have b: "in_year ?body = Val 2027" by simp
  have c: "(2027::int) < 1000 \<or> (2026::int) < 2027" by simp
  have v: "validate_Book sample_config ?body = Inl (ValidationError [F_year])"
    by (simp add: validate_Book_def failing_def len_between_def year_in_range_def
        sample_config_def)
  have k: "verify_api_key sample_config (Some (secret sample_config)) = Inr (secret sample_config)"
    by (simp add: verify_api_key_def)
  have r: "app sample_config (Some (secret sample_config)) (POST_book ?body) initial_books =
       (Inl (ValidationError [F_year]), initial_books)"
    by (simp add: v k)
  show ?thesis
    using create_rejects_year_out_of_range [OF a b c, of None initial_books] a b c r by blast
qed

section \<open>Full update\<close>

lemma db_id_setattr [simp]: "db_id (setattr a r) = db_id r"
  by (cases a) simp_all

lemma db_id_setattrs [simp]: "db_id (setattrs items r) = db_id r"
  by (induction items arbitrary: r) (simp_all add: setattrs_def)

lemma first_by_id_commit_update:
  "first_by_id book_id (commit_update book_id items db) =
     map_option (setattrs items) (first_by_id book_id db)"
  by (induction db) (simp_all add: first_by_id_def commit_update_def)

lemma validated_Book_bounds:
  assumes "validate_Book cfg body = Inr b"
  shows "len_between 1 200 (bk_title b) \<and> len_between 1 100 (bk_author b)
       \<and> year_in_range cfg (bk_year b)
       \<and> (case bk_isbn b of None \<Rightarrow> True | Some s \<Rightarrow> len_between 10 13 s)"
proof -
  from assms obtain i s where
    t: "required_str 1 200 (in_title body) = Some (bk_title b)" and
    a: "required_str 1 100 (in_author body) = Some (bk_author b)" and
    y: "required_year cfg (in_year body) = Some (bk_year b)" and
    s: "optional_str 10 13 (in_isbn body) = Some s" "bk_isbn b = attr s"
    unfolding validate_Book_Inr by blast
  have 1: "len_between 1 200 (bk_title b)"
    using t by (cases "in_title body") (auto split: if_splits)
  have 2: "len_between 1 100 (bk_author b)"
    using a by (cases "in_author body") (auto split: if_splits)
  have 3: "year_in_range cfg (bk_year b)"
    using y by (cases "in_year body") (auto split: if_splits)
  have 4: "case bk_isbn b of None \<Rightarrow> True | Some s \<Rightarrow> len_between 10 13 s"
    using s by (cases "in_isbn body") (auto split: if_splits)
  show ?thesis using 1 2 3 4 by blast
qed

lemma response_model_Book_valid:
  assumes "len_between 1 200 t" "len_between 1 100 a" "year_in_range cfg y"
    "case s of None \<Rightarrow> True | Some x \<Rightarrow> len_between 10 13 x"
  shows "response_model_Book cfg
           \<lparr>db_id = i, db_title = Some t, db_author = Some a, db_year = Some y, db_isbn = s\<rparr> =
         Inr \<lparr>bk_id = Some i, bk_title = t, bk_author = a, bk_year = y, bk_isbn = s\<rparr>"
  using assms
  by (cases s) (simp_all add: response_model_Book_def from_attributes_def validate_Book_def)

lemma update_book_present:
  assumes "book_id \<in> set (map db_id db)"
  shows "update_book book_id ub db =
           (Inr \<lparr>db_id = book_id, db_title = Some (bk_title ub), db_author = Some (bk_author ub),
                  db_year = Some (bk_year ub), db_isbn = bk_isbn ub\<rparr>,
            map (\<lambda>r. if db_id r = book_id
                      then \<lparr>db_id = book_id, db_title = Some (bk_title ub),
                            db_author = Some (bk_author ub), db_year = Some (bk_year ub),
                            db_isbn = bk_isbn ub\<rparr>
                      else r) db)"
proof -
  from assms obtain old where old: "first_by_id book_id db = Some old"
    using first_by_id_None [of book_id db] by (cases "first_by_id book_id db") auto
  then have pk: "db_id old = book_id"
    using first_by_id_Some by blast
  have rows: "commit_update book_id (model_dump_exclude_id ub) db =
      map (\<lambda>r. if db_id r = book_id
                then \<lparr>db_id = book_id, db_title = Some (bk_title ub),
                      db_author = Some (bk_author ub), db_year = Some (bk_year ub),
                      db_isbn = bk_isbn ub\<rparr>
                else r) db"
    by (simp add: commit_update_def setattrs_dump_Book cong: if_cong)
  show ?thesis
    by (simp add: update_book_def old pk Let_def setattrs_dump_Book rows)
qed

lemma update_book_absent:
  "book_id \<notin> set (map db_id db) \<Longrightarrow> update_book book_id ub db = (Inl (NotFound book_id), db)"
  using first_by_id_None [of book_id db] by (simp add: update_book_def)

text \<open>
  C3. Full update of an id that no record has fails with NotFound and leaves the store
  as it was. Otherwise every row of that id gets the title, author, year and isbn of the
  payload (whatever they were before) and keeps its id, no other row changes, the
  returned record is that row, and a get-by-id afterwards finds it. On the route, with
  the key accepted and a payload that validates, the response is the payload with the
  id of the path.
\<close>

theorem full_update_replaces_every_field:
  "update_book book_id ub db =
     (let new = \<lparr>db_id = book_id, db_title = Some (bk_title ub), db_author = Some (bk_author ub),
                 db_year = Some (bk_year ub), db_isbn = bk_isbn ub\<rparr>
      in if book_id \<in> set (map db_id db)
         then (Inr new, map (\<lambda>r. if db_id r = book_id then new else r) db)
         else (Inl (NotFound book_id), db))
   \<and> (book_id \<in> set (map db_id db) \<longrightarrow>
        get_book book_id (snd (update_book book_id ub db)) =
          Inr \<lparr>db_id = book_id, db_title = Some (bk_title ub), db_author = Some (bk_author ub),
                db_year = Some (bk_year ub), db_isbn = bk_isbn ub\<rparr>)
   \<and> (verify_api_key cfg credential = Inr k \<longrightarrow> validate_Book cfg body = Inr ub \<longrightarrow>
        app cfg credential (PUT_book book_id body) db =
          (if book_id \<in> set (map db_id db)
           then (Inr (OK_book (ub\<lparr>bk_id := Some book_id\<rparr>)), snd (update_book book_id ub db))
           else (Inl (NotFound book_id), db)))"
proof -
  let ?new = "\<lparr>db_id = book_id, db_title = Some (bk_title ub), db_author = Some (bk_author ub),
                 db_year = Some (bk_year ub), db_isbn = bk_isbn ub\<rparr>"
  have shape: "update_book book_id ub db =
     (let new = ?new
      in if book_id \<in> set (map db_id db)
         then (Inr new, map (\<lambda>r. if db_id r = book_id then new else r) db)
         else (Inl (NotFound book_id), db))"
    using update_book_present [of book_id db ub] update_book_absent [of book_id db ub]
    by (simp add: Let_def)
  have stored: "get_book book_id (snd (update_book book_id ub db)) = Inr ?new"
    if present: "book_id \<in> set (map db_id db)"
  proof -
    obtain old where old: "first_by_id book_id db = Some old"
      using present first_by_id_None [of book_id db] by (cases "first_by_id book_id db") auto
    have "first_by_id book_id (commit_update book_id (model_dump_exclude_id ub) db) =
            Some (setattrs (model_dump_exclude_id ub) old)"
      by (simp add: first_by_id_commit_update old)
    moreover have "db_id old = book_id"
      using old first_by_id_Some by blast
    ultimately show ?thesis
      by (simp add: get_book_def update_book_def old Let_def setattrs_dump_Book)
  qed
  have route: "app cfg credential (PUT_book book_id body) db =
          (if book_id \<in> set (map db_id db)
           then (Inr (OK_book (ub\<lparr>bk_id := Some book_id\<rparr>)), snd (update_book book_id ub db))
           else (Inl (NotFound book_id), db))"
    if key: "verify_api_key cfg credential = Inr k" and valid: "validate_Book cfg body = Inr ub"
  proof (cases "book_id \<in> set (map db_id db)")
    case True
    have "response_model_Book cfg ?new =
            Inr \<lparr>bk_id = Some book_id, bk_title = bk_title ub, bk_author = bk_author ub,
                  bk_year = bk_year ub, bk_isbn = bk_isbn ub\<rparr>"
      using validated_Book_bounds [OF valid] by (intro response_model_Book_valid) simp_all
    moreover have "\<lparr>bk_id = Some book_id, bk_title = bk_title ub, bk_author = bk_author ub,
                  bk_year = bk_year ub, bk_isbn = bk_isbn ub\<rparr> = ub\<lparr>bk_id := Some book_id\<rparr>"
      by simp
    ultimately show ?thesis
      using True by (simp add: key valid update_book_present [OF True])
  next
    case False
    then show ?thesis
      by (simp add: key valid update_book_absent [OF False])
  qed
  show ?thesis
    using shape stored route by blast
qed

theorem full_update_replaces_every_field_witness:
  "2 \<in> set (map db_id initial_books)
   \<and> verify_api_key sample_config (Some [107, 101, 121]) = Inr [107, 101, 121]
   \<and> validate_Book sample_config
        \<lparr>in_id = Val 7, in_title = Val [65], in_author = Val [66], in_year = Val 2000,
         in_isbn = Null\<rparr> =
       Inr \<lparr>bk_id = Some 7, bk_title = [65], bk_author = [66], bk_year = 2000, bk_isbn = None\<rparr>
   \<and> app sample_config (Some [107, 101, 121])
        (PUT_book 2 \<lparr>in_id = Val 7, in_title = Val [65], in_author = Val [66],
                     in_year = Val 2000, in_isbn = Null\<rparr>) initial_books =
       (Inr (OK_book \<lparr>bk_id = Some 2, bk_title = [65], bk_author = [66], bk_year = 2000,
                      bk_isbn = None\<rparr>),
        [war_and_peace,
         \<lparr>db_id = 2, db_title = Some [65], db_author = Some [66], db_year = Some 2000,
          db_isbn = None\<rparr>,
         eugene_onegin])"
proof -
  let ?body = "\<lparr>in_id = Val 7, in_title = Val [65], in_author = Val [66], in_year = Val 2000,
         in_isbn = Null\<rparr>"
  let ?ub = "\<lparr>bk_id = Some 7, bk_title = [65], bk_author = [66], bk_year = 2000, bk_isbn = None\<rparr>"
  have ids: "2 \<in> set (map db_id initial_books)"
    by (simp add: initial_books_def crime_and_punishment_def)
  have key: "verify_api_key sample_config (Some [107, 101, 121]) = Inr [107, 101, 121]"
    by (simp add: verify_api_key_def sample_config_def)
  have valid: "validate_Book sample_config ?body = Inr ?ub"
    by (simp add: validate_Book_def len_between_def year_in_range_def sample_config_def)
  note inst = full_update_replaces_every_field
    [of 2 ?ub initial_books sample_config "Some [107, 101, 121]" "[107, 101, 121]" ?body]
  from inst [THEN conjunct1] have "update_book 2 ?ub initial_books =
      (Inr \<lparr>db_id = 2, db_title = Some [65], db_author = Some [66], db_year = Some 2000,
             db_isbn = None\<rparr>,
       [war_and_peace,
        \<lparr>db_id = 2, db_title = Some [65], db_author = Some [66], db_year = Some 2000,
         db_isbn = None\<rparr>,
        eugene_onegin])"
    by (simp add: Let_def initial_books_def war_and_peace_def crime_and_punishment_def
        eugene_onegin_def)
  then have rows: "snd (update_book 2 ?ub initial_books) =
      [war_and_peace,
       \<lparr>db_id = 2, db_title = Some [65], db_author = Some [66], db_year = Some 2000,
        db_isbn = None\<rparr>,
       eugene_onegin]"
    by simp
  from inst key valid ids have "app sample_config (Some [107, 101, 121]) (PUT_book 2 ?body)
      initial_books = (Inr (OK_book (?ub\<lparr>bk_id := Some 2\<rparr>)), snd (update_book 2 ?ub initial_books))"
    by presburger
  then have put: "app sample_config (Some [107, 101, 121]) (PUT_book 2 ?body) initial_books =
       (Inr (OK_book \<lparr>bk_id = Some 2, bk_title = [65], bk_author = [66], bk_year = 2000,
                      bk_isbn = None\<rparr>),
        [war_and_peace,
         \<lparr>db_id = 2, db_title = Some [65], db_author = Some [66], db_year = Some 2000,
          db_isbn = None\<rparr>,
         eugene_onegin])"
    by (simp only: rows) simp
  show ?thesis
    using ids key valid put by blast
qed

section \<open>Partial update\<close>

lemma setattrs_dump_BookUpdate:
  "setattrs (model_dump_exclude_unset u) r =
     \<lparr>db_id = db_id r,
      db_title = (case upd_title u of NotSet \<Rightarrow> db_title r | SetTo v \<Rightarrow> v),
      db_author = (case upd_author u of NotSet \<Rightarrow> db_author r | SetTo v \<Rightarrow> v),
      db_year = (case upd_year u of NotSet \<Rightarrow> db_year r | SetTo v \<Rightarrow> v),
      db_isbn = (case upd_isbn u of NotSet \<Rightarrow> db_isbn r | SetTo v \<Rightarrow> v)\<rparr>"
  by (cases "upd_title u"; cases "upd_author u"; cases "upd_year u"; cases "upd_isbn u")
     (simp_all add: setattrs_def model_dump_exclude_unset_def)

lemma optional_str_NotSet: "optional_str lo hi x = Some v \<Longrightarrow> v = NotSet \<longleftrightarrow> x = Unset"
  by (cases x) (auto split: if_splits)

lemma optional_year_NotSet: "optional_year cfg x = Some v \<Longrightarrow> v = NotSet \<longleftrightarrow> x = Unset"
  by (cases x) (auto split: if_splits)

lemma validate_BookUpdate_Inr:
  "validate_BookUpdate cfg ru = Inr u \<longleftrightarrow>
     (optional_str 1 200 (patch_title ru) = Some (upd_title u)
      \<and> optional_str 1 100 (patch_author ru) = Some (upd_author u)
      \<and> optional_year cfg (patch_year ru) = Some (upd_year u)
      \<and> optional_str 10 13 (patch_isbn ru) = Some (upd_isbn u)
      \<and> BookUpdate.more u = ())"
  by (cases u) (auto simp: validate_BookUpdate_def split: option.splits)

text \<open>
  C2. Partial update of an existing record: every row of that id gets, for each of title,
  author, year and isbn, the payload's value where the payload sets the field and its
  own prior value where it does not; the id stays, no other row changes, and the
  patched record is returned. The fields a validated payload sets are exactly the keys
  present in the request body. The body with no key validates to the payload that sets
  nothing, and that update returns the record and leaves the store as it was, on the
  handler and on the route.
\<close>

theorem partial_update_frame:
  assumes "first_by_id book_id db = Some old"
  shows "(let patched = (\<lambda>r.
            \<lparr>db_id = db_id r,
             db_title = (case upd_title u of NotSet \<Rightarrow> db_title r | SetTo v \<Rightarrow> v),
             db_author = (case upd_author u of NotSet \<Rightarrow> db_author r | SetTo v \<Rightarrow> v),
             db_year = (case upd_year u of NotSet \<Rightarrow> db_year r | SetTo v \<Rightarrow> v),
             db_isbn = (case upd_isbn u of NotSet \<Rightarrow> db_isbn r | SetTo v \<Rightarrow> v)\<rparr>)
          in partial_update_book book_id u db =
               (Inr (patched old), map (\<lambda>r. if db_id r = book_id then patched r else r) db))
       \<and> (validate_BookUpdate cfg body = Inr u \<longrightarrow>
            (upd_title u = NotSet \<longleftrightarrow> patch_title body = Unset)
            \<and> (upd_author u = NotSet \<longleftrightarrow> patch_author body = Unset)
            \<and> (upd_year u = NotSet \<longleftrightarrow> patch_year body = Unset)
            \<and> (upd_isbn u = NotSet \<longleftrightarrow> patch_isbn body = Unset))
       \<and> validate_BookUpdate cfg
            \<lparr>patch_title = Unset, patch_author = Unset, patch_year = Unset, patch_isbn = Unset\<rparr> =
          Inr \<lparr>upd_title = NotSet, upd_author = NotSet, upd_year = NotSet, upd_isbn = NotSet\<rparr>
       \<and> partial_update_book book_id
            \<lparr>upd_title = NotSet, upd_author = NotSet, upd_year = NotSet, upd_isbn = NotSet\<rparr> db =
          (Inr old, db)
       \<and> snd (app cfg credential
                (PATCH_book book_id
                   \<lparr>patch_title = Unset, patch_author = Unset, patch_year = Unset,
                    patch_isbn = Unset\<rparr>) db) = db"
proof -
  have pk: "db_id old = book_id"
    using assms first_by_id_Some by blast
  have shape: "partial_update_book book_id w db =
      (Inr (setattrs (model_dump_exclude_unset w) old),
       map (\<lambda>r. if db_id r = book_id then setattrs (model_dump_exclude_unset w) r else r) db)"
    for w
    by (simp add: partial_update_book_def assms pk Let_def commit_update_def)
  have general: "let patched = (\<lambda>r.
            \<lparr>db_id = db_id r,
             db_title = (case upd_title u of NotSet \<Rightarrow> db_title r | SetTo v \<Rightarrow> v),
             db_author = (case upd_author u of NotSet \<Rightarrow> db_author r | SetTo v \<Rightarrow> v),
             db_year = (case upd_year u of NotSet \<Rightarrow> db_year r | SetTo v \<Rightarrow> v),
             db_isbn = (case upd_isbn u of NotSet \<Rightarrow> db_isbn r | SetTo v \<Rightarrow> v)\<rparr>)
          in partial_update_book book_id u db =
               (Inr (patched old), map (\<lambda>r. if db_id r = book_id then patched r else r) db)"
    unfolding Let_def shape setattrs_dump_BookUpdate by (rule refl)
  have present: "(upd_title u = NotSet \<longleftrightarrow> patch_title body = Unset)
            \<and> (upd_author u = NotSet \<longleftrightarrow> patch_author body = Unset)
            \<and> (upd_year u = NotSet \<longleftrightarrow> patch_year body = Unset)
            \<and> (upd_isbn u = NotSet \<longleftrightarrow> patch_isbn body = Unset)"
    if "validate_BookUpdate cfg body = Inr u"
    using that optional_str_NotSet optional_year_NotSet
    unfolding validate_BookUpdate_Inr by blast
  have empty_valid: "validate_BookUpdate cfg
            \<lparr>patch_title = Unset, patch_author = Unset, patch_year = Unset, patch_isbn = Unset\<rparr> =
          Inr \<lparr>upd_title = NotSet, upd_author = NotSet, upd_year = NotSet, upd_isbn = NotSet\<rparr>"
    by (simp add: validate_BookUpdate_def)
  have noop: "partial_update_book book_id
            \<lparr>upd_title = NotSet, upd_author = NotSet, upd_year = NotSet, upd_isbn = NotSet\<rparr> db =
          (Inr old, db)"
    by (simp add: shape model_dump_exclude_unset_def setattrs_def cong: if_cong)
  have route: "snd (app cfg credential
                (PATCH_book book_id
                   \<lparr>patch_title = Unset, patch_author = Unset, patch_year = Unset,
                    patch_isbn = Unset\<rparr>) db) = db"
    by (simp add: empty_valid noop split: sum.splits)
  show ?thesis
    using general present empty_valid noop route by blast
qed

theorem partial_update_frame_witness:
  "first_by_id 1 initial_books = Some war_and_peace
   \<and> partial_update_book 1
        \<lparr>upd_title = SetTo (Some [65]), upd_author = NotSet, upd_year = NotSet,
         upd_isbn = NotSet\<rparr> initial_books =
       (Inr (war_and_peace\<lparr>db_title := Some [65]\<rparr>),
        [war_and_peace\<lparr>db_title := Some [65]\<rparr>, crime_and_punishment, eugene_onegin])
   \<and> validate_BookUpdate sample_config
        \<lparr>patch_title = Val [65], patch_author = Unset, patch_year = Unset, patch_isbn = Unset\<rparr> =
       Inr \<lparr>upd_title = SetTo (Some [65]), upd_author = NotSet, upd_year = NotSet,
            upd_isbn = NotSet\<rparr>
   \<and> partial_update_book 1
        \<lparr>upd_title = NotSet, upd_author = NotSet, upd_year = NotSet, upd_isbn = NotSet\<rparr>
        initial_books =
       (Inr war_and_peace, initial_books)"
proof -
  let ?u = "\<lparr>upd_title = SetTo (Some [65]), upd_author = NotSet, upd_year = NotSet,
         upd_isbn = NotSet\<rparr>"
  let ?body = "\<lparr>patch_title = Val [65], patch_author = Unset, patch_year = Unset,
         patch_isbn = Unset\<rparr>"
  have old: "first_by_id 1 initial_books = Some war_and_peace"
    by (simp add: first_by_id_def initial_books_def war_and_peace_def)
  have valid: "validate_BookUpdate sample_config ?body = Inr ?u"
    by (simp add: validate_BookUpdate_def len_between_def)
  note inst = partial_update_frame [OF old, of ?u sample_config ?body None]
  from inst [THEN conjunct1] have patch: "partial_update_book 1 ?u initial_books =
       (Inr (war_and_peace\<lparr>db_title := Some [65]\<rparr>),
        [war_and_peace\<lparr>db_title := Some [65]\<rparr>, crime_and_punishment, eugene_onegin])"
    by (simp add: Let_def initial_books_def war_and_peace_def crime_and_punishment_def
        eugene_onegin_def)
  from inst have noop: "partial_update_book 1
        \<lparr>upd_title = NotSet, upd_author = NotSet, upd_year = NotSet, upd_isbn = NotSet\<rparr>
        initial_books = (Inr war_and_peace, initial_books)"
    by blast
  show ?thesis
    using old valid patch noop by blast
qed

section \<open>Statistics\<close>

subsection \<open>Counter\<close>













subsection \<open>The labels\<close>

declare digits.simps [simp del]






subsection \<open>The dict of centuries\<close>





lemma centuries_of_null_year:
  "\<not> list_all (\<lambda>r. db_year r \<noteq> None) db \<Longrightarrow> centuries_of db = Inl TypeError"
  by (induction db) (auto split: option.splits sum.splits)





lemma get_statistics_null_year:
  "\<not> list_all (\<lambda>r. db_year r \<noteq> None) db \<Longrightarrow> get_statistics db = Inl TypeError"
  by (simp add: get_statistics_def centuries_of_null_year)





section \<open>A null in a partial update\<close>

text \<open>
  C1 says that no operation stores a record with a null title. On the three seeded
  books, for a caller who presents the key, the partial update of book 1 with the body
  \<^verbatim>\<open>{"title": null}\<close> passes validation, and the store afterwards holds book 1 with
  no title; the response model of the route then refuses the row it has committed.
\<close>

theorem patch_null_title_is_stored:
  "validate_BookUpdate cfg
     \<lparr>patch_title = Null, patch_author = Unset, patch_year = Unset, patch_isbn = Unset\<rparr> =
     Inr \<lparr>upd_title = SetTo None, upd_author = NotSet, upd_year = NotSet, upd_isbn = NotSet\<rparr>
   \<and> app cfg (Some (secret cfg))
       (PATCH_book 1
          \<lparr>patch_title = Null, patch_author = Unset, patch_year = Unset, patch_isbn = Unset\<rparr>)
       initial_books =
     (Inl ResponseValidationError,
      [war_and_peace\<lparr>db_title := None\<rparr>, crime_and_punishment, eugene_onegin])
   \<and> db_title (war_and_peace\<lparr>db_title := None\<rparr>) = None"
proof -
  have valid: "validate_BookUpdate cfg
     \<lparr>patch_title = Null, patch_author = Unset, patch_year = Unset, patch_isbn = Unset\<rparr> =
     Inr \<lparr>upd_title = SetTo None, upd_author = NotSet, upd_year = NotSet, upd_isbn = NotSet\<rparr>"
    by (simp add: validate_BookUpdate_def)
  have key: "verify_api_key cfg (Some (secret cfg)) = Inr (secret cfg)"
    by (simp add: verify_api_key_def)
  have old: "first_by_id 1 initial_books = Some war_and_peace"
    by (simp add: first_by_id_def initial_books_def war_and_peace_def)
  have patch: "partial_update_book 1
      \<lparr>upd_title = SetTo None, upd_author = NotSet, upd_year = NotSet, upd_isbn = NotSet\<rparr>
      initial_books =
     (Inr (war_and_peace\<lparr>db_title := None\<rparr>),
      [war_and_peace\<lparr>db_title := None\<rparr>, crime_and_punishment, eugene_onegin])"
    by (simp add: partial_update_book_def old Let_def model_dump_exclude_unset_def
        commit_update_def)
       (simp add: setattrs_def initial_books_def war_and_peace_def crime_and_punishment_def
        eugene_onegin_def)
  have resp: "response_model_Book cfg (war_and_peace\<lparr>db_title := None\<rparr>) =
      Inl ResponseValidationError"
    by (simp add: response_model_Book_def from_attributes_def validate_Book_def)
  show ?thesis
    by (simp add: valid key patch resp)
qed

section \<open>The author filter as a pattern\<close>

text \<open>
  C7 says that the list operation returns exactly the records whose author contains
  the filter string. On the three seeded books the filter \<^verbatim>\<open>_\<close> returns all three,
  whatever the case folding of the store, and no author of the three contains an
  underscore.
\<close>

theorem author_filter_underscore_matches_all:
  "get_books cfg 0 10 (Some [95]) None None initial_books = initial_books
   \<and> list_all (\<lambda>r. case db_author r of None \<Rightarrow> True | Some a \<Rightarrow> 95 \<notin> set a) initial_books"
  by (simp add: get_books_def offset_limit_def ilike_def initial_books_def war_and_peace_def
      crime_and_punishment_def eugene_onegin_def tolstoy_def dostoevsky_def pushkin_def)

section \<open>The author filter without wildcards\<close>

lemma like_percent:
  "like f (37 # ps) s \<longleftrightarrow> (\<exists>u t. s = u @ t \<and> like f ps t)"
proof (induction s)
  case Nil
  then show ?case by simp
next
  case (Cons c cs)
  show ?case
  proof
    assume "like f (37 # ps) (c # cs)"
    then consider "like f ps (c # cs)" | "like f (37 # ps) cs" by auto
    then show "\<exists>u t. c # cs = u @ t \<and> like f ps t"
    proof cases
      case 1
      then have "c # cs = [] @ (c # cs) \<and> like f ps (c # cs)" by simp
      then show ?thesis by blast
    next
      case 2
      then obtain u t where "cs = u @ t" "like f ps t" using Cons.IH by blast
      then have "c # cs = (c # u) @ t \<and> like f ps t" by simp
      then show ?thesis by blast
    qed
  next
    assume "\<exists>u t. c # cs = u @ t \<and> like f ps t"
    then obtain u t where ut: "c # cs = u @ t" "like f ps t" by blast
    show "like f (37 # ps) (c # cs)"
    proof (cases u)
      case Nil
      then have "like f ps (c # cs)" using ut by simp
      then show ?thesis by simp
    next
      case (Cons d u')
      then have "cs = u' @ t" using ut by simp
      then have "like f (37 # ps) cs" using ut Cons.IH by blast
      then show ?thesis by simp
    qed
  qed
qed

lemma like_only_percent: "like f [37] s"
  using like_percent [of f "[]" s] by simp

lemma like_plain_prefix:
  assumes "37 \<notin> set a" "95 \<notin> set a"
  shows "like f (a @ [37]) t \<longleftrightarrow> prefix (map f a) (map f t)"
  using assms
proof (induction a arbitrary: t)
  case Nil
  then show ?case by (simp add: like_only_percent)
next
  case (Cons p ps)
  then have p: "p \<noteq> 37" "p \<noteq> 95" and rest: "37 \<notin> set ps" "95 \<notin> set ps" by auto
  show ?case
  proof (cases t)
    case Nil
    then show ?thesis using p by simp
  next
    case (Cons c cs)
    then show ?thesis
      using p Cons.IH [OF rest, of cs] by auto
  qed
qed

lemma like_substring:
  assumes "37 \<notin> set a" "95 \<notin> set a"
  shows "like f ([37] @ a @ [37]) s \<longleftrightarrow> sublist (map f a) (map f s)"
proof -
  have "like f ([37] @ a @ [37]) s \<longleftrightarrow> (\<exists>u t. s = u @ t \<and> prefix (map f a) (map f t))"
    using like_percent [of f "a @ [37]" s] like_plain_prefix [OF assms, of f] by simp
  also have "\<dots> \<longleftrightarrow> sublist (map f a) (map f s)"
  proof
    assume "\<exists>u t. s = u @ t \<and> prefix (map f a) (map f t)"
    then obtain u t v where "s = u @ t" "map f t = map f a @ v"
      by (auto simp: prefix_def)
    then have "map f s = map f u @ map f a @ v" by simp
    then show "sublist (map f a) (map f s)"
      unfolding sublist_def by blast
  next
    assume "sublist (map f a) (map f s)"
    then obtain ps ss where "map f s = ps @ map f a @ ss"
      unfolding sublist_def by blast
    then obtain u t where "s = u @ t" "map f t = map f a @ ss"
      by (metis map_eq_append_conv)
    then have "s = u @ t \<and> prefix (map f a) (map f t)" by (simp add: prefix_def)
    then show "\<exists>u t. s = u @ t \<and> prefix (map f a) (map f t)" by blast
  qed
  finally show ?thesis .
qed

text \<open>
  A filter string with no \<^verbatim>\<open>%\<close> and no \<^verbatim>\<open>_\<close> selects exactly the rows whose author
  contains it as a contiguous substring, up to the case folding of the store; rows
  with no author are not selected.
\<close>

theorem author_filter_without_wildcards:
  assumes "a \<noteq> []" and "37 \<notin> set a" and "95 \<notin> set a"
  shows "get_books cfg skip limit (Some a) None None db =
           offset_limit cfg skip limit
             (filter (\<lambda>r. case db_author r of
                             None \<Rightarrow> False
                           | Some s \<Rightarrow> sublist (map (lower_cp cfg) a) (map (lower_cp cfg) s)) db)"
proof -
  have "ilike cfg col ([37] @ a @ [37]) =
          (case col of None \<Rightarrow> False
           | Some s \<Rightarrow> sublist (map (lower_cp cfg) a) (map (lower_cp cfg) s))" for col
    using like_substring [OF assms(2,3), of "lower_cp cfg"]
    by (cases col) (simp_all add: ilike_def)
  then show ?thesis
    using assms(1) by (simp add: get_books_def)
qed

theorem author_filter_without_wildcards_witness:
  "[1090, 1086, 1083, 1089, 1090] \<noteq> ([] :: nat list)
   \<and> 37 \<notin> set [1090, 1086, 1083, 1089, 1090 :: nat]
   \<and> 95 \<notin> set [1090, 1086, 1083, 1089, 1090 :: nat]
   \<and> get_books sample_config 0 10 (Some [1090, 1086, 1083, 1089, 1090]) None None initial_books =
       [war_and_peace]"
proof -
  have a: "[1090, 1086, 1083, 1089, 1090] \<noteq> ([] :: nat list)" by simp
  have b: "37 \<notin> set [1090, 1086, 1083, 1089, 1090 :: nat]" by simp
  have c: "95 \<notin> set [1090, 1086, 1083, 1089, 1090 :: nat]" by simp
  have "get_books sample_config 0 10 (Some [1090, 1086, 1083, 1089, 1090]) None None initial_books =
       [war_and_peace]"
    unfolding author_filter_without_wildcards [OF a b c]
    by (simp add: offset_limit_def initial_books_def war_and_peace_def crime_and_punishment_def
        eugene_onegin_def tolstoy_def dostoevsky_def pushkin_def sample_config_def
        fold_latin_cyrillic_def sublist_Cons_right prefix_Cons)
  then show ?thesis using a b c by blast
qed

section \<open>Create, then get; the empty store\<close>

lemma first_by_id_append_new:
  "book_id \<notin> set (map db_id db) \<Longrightarrow> db_id r = book_id \<Longrightarrow>
   first_by_id book_id (db @ [r]) = Some r"
  by (induction db) (auto simp: first_by_id_def)

text \<open>
  A create with a validated payload appends one row with the store's new id and the
  payload's values; the row satisfies the constraints of Book, and get-by-id on the new
  id returns it.
\<close>

theorem create_then_get:
  assumes "validate_Book cfg body = Inr book"
  shows "get_book (new_id db) (snd (create_book book db)) = Inr (fst (create_book book db))
       \<and> snd (create_book book db) = db @ [fst (create_book book db)]
       \<and> fst (create_book book db) =
           \<lparr>db_id = new_id db, db_title = Some (bk_title book), db_author = Some (bk_author book),
            db_year = Some (bk_year book), db_isbn = bk_isbn book\<rparr>
       \<and> response_model_Book cfg (fst (create_book book db)) =
           Inr (book\<lparr>bk_id := Some (new_id db)\<rparr>)"
proof -
  let ?row = "\<lparr>db_id = new_id db, db_title = Some (bk_title book),
               db_author = Some (bk_author book), db_year = Some (bk_year book),
               db_isbn = bk_isbn book\<rparr>"
  have made: "create_book book db = (?row, db @ [?row])"
    by (simp add: create_book_def setattrs_dump_Book Let_def)
  have found: "first_by_id (new_id db) (db @ [?row]) = Some ?row"
    using new_id_fresh [of db] by (intro first_by_id_append_new) simp_all
  have "response_model_Book cfg ?row =
          Inr \<lparr>bk_id = Some (new_id db), bk_title = bk_title book, bk_author = bk_author book,
                bk_year = bk_year book, bk_isbn = bk_isbn book\<rparr>"
    using validated_Book_bounds [OF assms] by (intro response_model_Book_valid) simp_all
  then have resp: "response_model_Book cfg ?row = Inr (book\<lparr>bk_id := Some (new_id db)\<rparr>)"
    by simp
  show ?thesis
    by (simp add: made found resp get_book_def)
qed

theorem create_then_get_witness:
  "validate_Book sample_config
     \<lparr>in_id = Unset, in_title = Val [65], in_author = Val [66], in_year = Val 2000,
      in_isbn = Unset\<rparr> =
     Inr \<lparr>bk_id = None, bk_title = [65], bk_author = [66], bk_year = 2000, bk_isbn = None\<rparr>
   \<and> get_book 4
        (snd (create_book
               \<lparr>bk_id = None, bk_title = [65], bk_author = [66], bk_year = 2000, bk_isbn = None\<rparr>
               initial_books)) =
       Inr \<lparr>db_id = 4, db_title = Some [65], db_author = Some [66], db_year = Some 2000,
            db_isbn = None\<rparr>"
proof -
  let ?body = "\<lparr>in_id = Unset, in_title = Val [65], in_author = Val [66], in_year = Val 2000,
      in_isbn = Unset\<rparr>"
  let ?book = "\<lparr>bk_id = None, bk_title = [65], bk_author = [66], bk_year = 2000, bk_isbn = None\<rparr>"
  have valid: "validate_Book sample_config ?body = Inr ?book"
    by (simp add: validate_Book_def len_between_def year_in_range_def sample_config_def)
  have id: "new_id initial_books = 4"
    by (simp add: new_id_def initial_books_def war_and_peace_def crime_and_punishment_def
        eugene_onegin_def)
  note inst = create_then_get [OF valid, of initial_books]
  from inst have got: "get_book (new_id initial_books) (snd (create_book ?book initial_books)) =
      Inr (fst (create_book ?book initial_books))"
    by blast
  from inst have row: "fst (create_book ?book initial_books) =
      \<lparr>db_id = new_id initial_books, db_title = Some (bk_title ?book),
       db_author = Some (bk_author ?book), db_year = Some (bk_year ?book),
       db_isbn = bk_isbn ?book\<rparr>"
    by blast
  from got row have "get_book (new_id initial_books) (snd (create_book ?book initial_books)) =
      Inr \<lparr>db_id = new_id initial_books, db_title = Some (bk_title ?book),
           db_author = Some (bk_author ?book), db_year = Some (bk_year ?book),
           db_isbn = bk_isbn ?book\<rparr>"
    by (simp only:)
  then have "get_book 4 (snd (create_book ?book initial_books)) =
       Inr \<lparr>db_id = 4, db_title = Some [65], db_author = Some [66], db_year = Some 2000,
            db_isbn = None\<rparr>"
    by (simp add: id)
  then show ?thesis using valid by blast
qed

text \<open>The list with skip 0 and limit 10 on an empty store is the empty sequence.\<close>

theorem list_of_empty_store:
  "get_books cfg 0 10 author year_from year_to [] = []
   \<and> app cfg credential (GET_books 0 10 author year_from year_to) [] = (Inr (OK_books []), [])"
proof -
  have "get_books cfg 0 10 author year_from year_to [] = []"
    by (simp add: get_books_def offset_limit_def split: option.splits)
  then show ?thesis by simp
qed

end
